theory Spec2Isabelle
  imports Main
begin

section \<open>The cart slice (features/cart/cartSlice.js)\<close>

text \<open>
  The slice state and its lines are plain objects; they become records. JavaScript
  numbers are modelled as mathematical integers: the shop's prices (6, 10) and all
  quantities are small integers. The source's \<open>++\<close>, \<open>--\<close>, \<open>+=\<close> and \<open>-=\<close> work on
  IEEE doubles, which add and subtract integers exactly as long as the operands and the
  result stay within \<open>2^53\<close> in magnitude; the model computes what the code computes
  on such values (\<open>safe_integer\<close> below), and the rounding beyond them is outside it.
  Field names that would clash between records, or with the HOL constant \<open>id\<close>, carry
  the name of the object they belong to as a prefix.
\<close>

record cart_line =
  line_id :: string
  price :: int
  quantity :: int
  totalPrice :: int
  name :: string

record cart_state =
  items :: "cart_line list"
  totalQuantity :: int
  changed :: bool

text \<open>
  The payload of \<open>addItem\<close>. The reducer reads its \<open>id\<close>, \<open>price\<close> and \<open>title\<close>;
  the cart item component (CartItem.js) sends \<open>{id, title, price, quantity}\<close>, and a
  caller may leave \<open>quantity\<close> out, so that field is optional.
\<close>

record item_payload =
  item_id :: string
  item_price :: int
  item_title :: string
  item_quantity :: "int option"

text \<open>The payload of \<open>replaceCart\<close>.\<close>

record cart_payload =
  payload_items :: "cart_line list"
  payload_totalQuantity :: int

definition initialState :: cart_state where
  "initialState = \<lparr>items = [], totalQuantity = 0, changed = False\<rparr>"

text \<open>
  \<open>state.items.find((i) => i.id === x)\<close> is \<^const>\<open>find\<close> of the list library: the
  first line with that id, or nothing. The reducers then mutate the object found, which
  (through the draft of the state) changes that line where it stands in \<open>items\<close>:
  \<open>update_found\<close> rewrites the first line that satisfies the test and no other.
\<close>

definition has_id :: "string \<Rightarrow> cart_line \<Rightarrow> bool" where
  "has_id x i = (line_id i = x)"

fun update_found :: "(cart_line \<Rightarrow> bool) \<Rightarrow> (cart_line \<Rightarrow> cart_line) \<Rightarrow> cart_line list \<Rightarrow> cart_line list" where
  "update_found P f [] = []"
| "update_found P f (i # is) = (if P i then f i # is else i # update_found P f is)"

definition replaceCart :: "cart_state \<Rightarrow> cart_payload \<Rightarrow> cart_state" where
  "replaceCart state payload =
     (let state = state\<lparr>totalQuantity := payload_totalQuantity payload\<rparr>
      in state\<lparr>items := payload_items payload\<rparr>)"

definition addItem :: "cart_state \<Rightarrow> item_payload \<Rightarrow> cart_state" where
  "addItem state item =
     (let existingItem = find (has_id (item_id item)) (items state);
          state = state\<lparr>totalQuantity := totalQuantity state + 1\<rparr>;
          state = state\<lparr>changed := True\<rparr>
      in case existingItem of
           None \<Rightarrow>
             state\<lparr>items := items state @
               [\<lparr>line_id = item_id item,
                 price = item_price item,
                 quantity = 1,
                 totalPrice = item_price item,
                 name = item_title item\<rparr>]\<rparr>
         | Some _ \<Rightarrow>
             state\<lparr>items := update_found (has_id (item_id item))
               (\<lambda>existingItem.
                  existingItem\<lparr>quantity := quantity existingItem + 1,
                    totalPrice := totalPrice existingItem + item_price item\<rparr>)
               (items state)\<rparr>)"

definition removeItem :: "cart_state \<Rightarrow> string \<Rightarrow> cart_state" where
  "removeItem state itemId =
     (case find (has_id itemId) (items state) of
        None \<Rightarrow> state
      | Some existingItem \<Rightarrow>
          (let state = state\<lparr>totalQuantity := totalQuantity state - 1\<rparr>;
               state = state\<lparr>changed := True\<rparr>
           in if quantity existingItem = 1
              then state\<lparr>items := filter (\<lambda>i. line_id i \<noteq> itemId) (items state)\<rparr>
              else state\<lparr>items := update_found (has_id itemId)
                     (\<lambda>existingItem.
                        existingItem\<lparr>quantity := quantity existingItem - 1,
                          totalPrice := totalPrice existingItem - price existingItem\<rparr>)
                     (items state)\<rparr>))"

section \<open>Actions and the store's cart reducer\<close>

text \<open>
  A notification is the object the thunks pass to \<open>uiActions.showNotification\<close>; its
  status is one of the strings \<open>pending\<close>, \<open>success\<close> and \<open>error\<close>.
\<close>

record notification =
  status :: string
  title :: string
  message :: string

text \<open>
  The actions that this code dispatches to the store: the three of the cart slice, and
  \<open>showNotification\<close> and \<open>toggleCartVisibility\<close> of the ui slice.
\<close>

datatype action =
    ReplaceCart cart_payload
  | AddItem item_payload
  | RemoveItem string
  | ShowNotification notification
  | ToggleCartVisibility

text \<open>
  \<open>cartSlice.reducer\<close>, as \<open>createSlice\<close> builds it: an action of the slice runs its
  case reducer, and any other action leaves the slice's state as it is.
\<close>

fun cart_reducer :: "cart_state \<Rightarrow> action \<Rightarrow> cart_state" where
  "cart_reducer state (ReplaceCart payload) = replaceCart state payload"
| "cart_reducer state (AddItem item) = addItem state item"
| "cart_reducer state (RemoveItem itemId) = removeItem state itemId"
| "cart_reducer state (ShowNotification n) = state"
| "cart_reducer state ToggleCartVisibility = state"

section \<open>The thunks (features/cart/cartActions.js)\<close>

text \<open>
  What the remote store answers is the environment's choice, so it is an argument of the
  model: \<open>fetch\<close> either rejects (a network error) or resolves to a response with its
  \<open>ok\<close> flag and its body. The body of the cart document, read by \<open>response.json()\<close>,
  is not JSON at all, or \<open>null\<close> (nothing was ever stored), or an object with an
  optional \<open>items\<close> (the store drops an empty array) and its \<open>totalQuantity\<close>.
\<close>

datatype 'a response = Rejected | Response bool 'a

datatype cart_json = InvalidJson | JsonNull | JsonObject "cart_line list option" int

datatype js_error = NetworkError | Error string | SyntaxError | TypeError

text \<open>
  What a thunk does, in order: the actions it dispatches and the requests it sends.
  The body of the write is \<open>{items, totalQuantity}\<close>, the shape of \<open>cart_payload\<close>.
\<close>

datatype http_request = GET string | PUT string cart_payload

datatype effect = Dispatch action | Request http_request

definition cart_url :: string where
  "cart_url = ''https://redux-academind-default-rtdb.asia-southeast1.firebasedatabase.app/cart.json''"

text \<open>The emoji of the messages, as the bytes of their UTF-8 encoding.\<close>

definition warning_sign :: string where
  "warning_sign = [CHR 0xE2, CHR 0x9A, CHR 0xA0, CHR 0xEF, CHR 0xB8, CHR 0x8F]"

definition cross_mark :: string where
  "cross_mark = [CHR 0xE2, CHR 0x9D, CHR 0x8C]"

definition shopping_cart :: string where
  "shopping_cart = [CHR 0xF0, CHR 0x9F, CHR 0x9B, CHR 0x92]"

definition hourglass_flowing :: string where
  "hourglass_flowing = [CHR 0xE2, CHR 0x8F, CHR 0xB3]"

definition hourglass_done :: string where
  "hourglass_done = [CHR 0xE2, CHR 0x8C, CHR 0x9B]"

definition party_popper :: string where
  "party_popper = [CHR 0xF0, CHR 0x9F, CHR 0x8E, CHR 0x89]"

definition check_mark :: string where
  "check_mark = [CHR 0xE2, CHR 0x9C, CHR 0x85]"

definition fetch_failed_notification :: notification where
  "fetch_failed_notification =
     \<lparr>status = ''error'',
      title = ''Error!'' @ warning_sign,
      message = ''Fetching cart data failed'' @ cross_mark @ warning_sign\<rparr>"

definition sending_notification :: notification where
  "sending_notification =
     \<lparr>status = ''pending'',
      title = ''Sending request.. '' @ hourglass_flowing,
      message = ''Sending cart data! '' @ shopping_cart @ hourglass_done\<rparr>"

definition sent_notification :: notification where
  "sent_notification =
     \<lparr>status = ''success'',
      title = ''Success! '' @ party_popper,
      message = ''Cart data sent successfully '' @ check_mark @ shopping_cart\<rparr>"

definition send_failed_notification :: notification where
  "send_failed_notification =
     \<lparr>status = ''error'',
      title = ''Error!'' @ warning_sign,
      message = ''Sending cart data failed'' @ cross_mark @ warning_sign\<rparr>"

text \<open>
  \<open>fetchData\<close>: a rejected \<open>fetch\<close> and a body that is not JSON throw, and so does a
  response that is not ok; otherwise the parsed body is returned.
\<close>

fun fetchData :: "cart_json response \<Rightarrow> js_error + cart_json" where
  "fetchData Rejected = Inl NetworkError"
| "fetchData (Response ok body) =
     (if \<not> ok then Inl (Error (''Error fetching cart'' @ warning_sign @ shopping_cart))
      else case body of InvalidJson \<Rightarrow> Inl SyntaxError | data \<Rightarrow> Inr data)"

text \<open>
  \<open>fetchcartData\<close>: the read request, then inside \<open>try\<close> the dispatch of
  \<open>replaceCart\<close> with \<open>cartData.items || []\<close> and \<open>cartData.totalQuantity\<close>. Whatever
  is thrown inside \<open>try\<close> (by \<open>fetchData\<close>, or by reading a property of \<open>null\<close>)
  reaches \<open>catch\<close>, which dispatches the error notification.
\<close>

definition fetchcartData :: "cart_json response \<Rightarrow> effect list" where
  "fetchcartData r =
     Request (GET cart_url) #
     (case fetchData r of
        Inr (JsonObject its tq) \<Rightarrow>
          [Dispatch (ReplaceCart
             \<lparr>payload_items = (case its of None \<Rightarrow> [] | Some is \<Rightarrow> is),
              payload_totalQuantity = tq\<rparr>)]
      | Inr JsonNull \<Rightarrow> [Dispatch (ShowNotification fetch_failed_notification)]
      | Inr InvalidJson \<Rightarrow> [Dispatch (ShowNotification fetch_failed_notification)]
      | Inl error \<Rightarrow> [Dispatch (ShowNotification fetch_failed_notification)])"

text \<open>\<open>sendRequest\<close> reads nothing of the response but its \<open>ok\<close> flag.\<close>

fun sendRequest :: "'a response \<Rightarrow> js_error + unit" where
  "sendRequest Rejected = Inl NetworkError"
| "sendRequest (Response ok body) =
     (if \<not> ok then Inl (Error (''Sending cart data failed '' @ warning_sign)) else Inr ())"

definition sendCartData :: "cart_state \<Rightarrow> 'a response \<Rightarrow> effect list" where
  "sendCartData cart r =
     Dispatch (ShowNotification sending_notification) #
     Request (PUT cart_url
       \<lparr>payload_items = items cart, payload_totalQuantity = totalQuantity cart\<rparr>) #
     (case sendRequest r of
        Inr _ \<Rightarrow> [Dispatch (ShowNotification sent_notification)]
      | Inl error \<Rightarrow> [Dispatch (ShowNotification send_failed_notification)])"

text \<open>The actions among the effects of a thunk, in the order of their dispatch.\<close>

fun dispatched :: "effect list \<Rightarrow> action list" where
  "dispatched [] = []"
| "dispatched (Dispatch a # es) = a # dispatched es"
| "dispatched (Request q # es) = dispatched es"

text \<open>The requests among the effects of a thunk.\<close>

fun requested :: "effect list \<Rightarrow> http_request list" where
  "requested [] = []"
| "requested (Dispatch a # es) = requested es"
| "requested (Request q # es) = q # requested es"

text \<open>Whether the remote call succeeded: the request was answered, and with \<open>ok\<close>.\<close>

fun succeeded :: "'a response \<Rightarrow> bool" where
  "succeeded Rejected = False"
| "succeeded (Response ok body) = ok"

section \<open>The application's effects (App.js)\<close>

text \<open>
  The running application: the cart held by the store, the module variable
  \<open>isInitial\<close>, the thunks that are waiting for the answer to their request (each with
  what it will do once the answer is there), and the trace of everything done so far.
\<close>

record app =
  cart :: cart_state
  isInitial :: bool
  suspended :: "effect list list"
  trace :: "effect list"

definition initial_app :: app where
  "initial_app = \<lparr>cart = initialState, isInitial = True, suspended = [], trace = []\<rparr>"

text \<open>A dispatched action goes through the reducer; a request only leaves the machine.\<close>

fun perform :: "effect \<Rightarrow> app \<Rightarrow> app" where
  "perform (Dispatch x) a = a\<lparr>cart := cart_reducer (cart a) x, trace := trace a @ [Dispatch x]\<rparr>"
| "perform (Request q) a = a\<lparr>trace := trace a @ [Request q]\<rparr>"

text \<open>
  An async thunk runs at once up to the \<open>await\<close> of its request and is suspended
  there; other actions can be dispatched before it goes on.
\<close>

fun start :: "effect list \<Rightarrow> app \<Rightarrow> app" where
  "start [] a = a"
| "start (Dispatch x # es) a = start es (perform (Dispatch x) a)"
| "start (Request q # es) a = (perform (Request q) a)\<lparr>suspended := suspended a @ [es]\<rparr>"

fun finish :: "effect list \<Rightarrow> app \<Rightarrow> app" where
  "finish [] a = a"
| "finish (e # es) a = finish es (perform e a)"

definition resume :: "nat \<Rightarrow> app \<Rightarrow> app" where
  "resume k a =
     (if k < length (suspended a)
      then finish (suspended a ! k)
             (a\<lparr>suspended := take k (suspended a) @ drop (Suc k) (suspended a)\<rparr>)
      else a)"

text \<open>
  What can happen: the user's components dispatch an action; the first effect of
  \<open>App\<close> dispatches \<open>fetchcartData()\<close>; the second effect of \<open>App\<close> runs (it returns
  on its first run, and later dispatches \<open>sendCartData(cart)\<close> when \<open>cart.changed\<close>);
  a suspended thunk receives its answer and goes on. The answer a request will get is
  given with the event that starts the thunk.
\<close>

datatype event =
    User action
  | LoadEffect "cart_json response"
  | SyncEffect "unit response"
  | Resume nat

fun step :: "app \<Rightarrow> event \<Rightarrow> app" where
  "step a (User x) = perform (Dispatch x) a"
| "step a (LoadEffect r) = start (fetchcartData r) a"
| "step a (SyncEffect r) =
     (if isInitial a then a\<lparr>isInitial := False\<rparr>
      else if changed (cart a) then start (sendCartData (cart a) r) a
      else a)"
| "step a (Resume k) = resume k a"

fun run :: "app \<Rightarrow> event list \<Rightarrow> app" where
  "run a [] = a"
| "run a (e # es) = run (step a e) es"

section \<open>Vocabulary of the properties\<close>

text \<open>
  The invariant of the cart that the reducers keep: no two lines share an id, every line
  has a quantity of at least one, and \<open>totalQuantity\<close> is the sum of the quantities.
\<close>

definition cart_inv :: "cart_state \<Rightarrow> bool" where
  "cart_inv state =
     (distinct (map line_id (items state)) \<and>
      list_all (\<lambda>i. 1 \<le> quantity i) (items state) \<and>
      totalQuantity state = sum_list (map quantity (items state)))"

text \<open>
  The integers on which the arithmetic of doubles is the arithmetic of integers, as
  \<open>Number.isSafeInteger\<close> has them: adding or subtracting one from a safe integer is
  exact, and so is a sum of safe integers that is itself a safe integer.
\<close>

definition safe_integer :: "int \<Rightarrow> bool" where
  "safe_integer n = (- (2 ^ 53) < n \<and> n < 2 ^ 53)"

text \<open>The actions \<open>addItem\<close> and \<open>removeItem\<close>, and no other.\<close>

fun add_or_remove :: "action \<Rightarrow> bool" where
  "add_or_remove (AddItem item) = True"
| "add_or_remove (RemoveItem itemId) = True"
| "add_or_remove x = False"

text \<open>A line whose total is its unit price times its quantity.\<close>

definition line_total_ok :: "cart_line \<Rightarrow> bool" where
  "line_total_ok i = (totalPrice i = price i * quantity i)"

text \<open>
  An event mutates the local cart when it is an \<open>addItem\<close> of the user, or a
  \<open>removeItem\<close> of the user whose id is the id of a line of the cart.
\<close>

fun mutates :: "cart_state \<Rightarrow> event \<Rightarrow> bool" where
  "mutates state (User (AddItem item)) = True"
| "mutates state (User (RemoveItem itemId)) = (find (has_id itemId) (items state) \<noteq> None)"
| "mutates state e = False"

text \<open>
  The effects that cannot change the flag \<open>changed\<close>: every effect but the dispatch of
  \<open>addItem\<close> or \<open>removeItem\<close>. A \<open>quiet\<close> application is one whose suspended thunks
  hold such effects only.
\<close>

fun keeps_changed :: "effect \<Rightarrow> bool" where
  "keeps_changed (Dispatch (AddItem item)) = False"
| "keeps_changed (Dispatch (RemoveItem itemId)) = False"
| "keeps_changed e = True"

definition quiet :: "app \<Rightarrow> bool" where
  "quiet a = list_all (list_all keeps_changed) (suspended a)"

text \<open>
  The dirty flag as the specification words it, read off a trace: true iff the local
  cart has been mutated by \<open>addItem\<close> or \<open>removeItem\<close> since the last successful remote
  replace (a dispatched \<open>replaceCart\<close>) or sync (a dispatched success notification).
  The first argument is the cart before the trace, the second the flag before it.
\<close>

fun spec_changed :: "cart_state \<Rightarrow> bool \<Rightarrow> effect list \<Rightarrow> bool" where
  "spec_changed state dirty [] = dirty"
| "spec_changed state dirty (Request q # es) = spec_changed state dirty es"
| "spec_changed state dirty (Dispatch x # es) =
     spec_changed (cart_reducer state x)
       (case x of
          AddItem item \<Rightarrow> True
        | RemoveItem itemId \<Rightarrow> (if find (has_id itemId) (items state) = None then dirty else True)
        | ReplaceCart payload \<Rightarrow> False
        | ShowNotification n \<Rightarrow> (if status n = ''success'' then False else dirty)
        | ToggleCartVisibility \<Rightarrow> dirty)
       es"

text \<open>The two products of the shop (Products.js), as payloads of \<open>addItem\<close>.\<close>

definition product1 :: item_payload where
  "product1 = \<lparr>item_id = ''p1'', item_price = 6, item_title = ''Product 1'', item_quantity = None\<rparr>"

definition product2 :: item_payload where
  "product2 = \<lparr>item_id = ''p2'', item_price = 10, item_title = ''Product 2'', item_quantity = None\<rparr>"

text \<open>
  A run of the application from its start: both effects of \<open>App\<close> run after the
  first render (the load starts, the sync effect returns on its first run), the load is
  answered with an empty cart document, the sync effect runs on the replaced cart and
  sends nothing, the user adds product 1, the sync effect sends the cart, and the write
  is answered with success.
\<close>

definition add_then_sync :: "event list" where
  "add_then_sync =
     [LoadEffect (Response True (JsonObject None 0)),
      SyncEffect (Response True ()),
      Resume 0,
      SyncEffect (Response True ()),
      User (AddItem product1),
      SyncEffect (Response True ()),
      Resume 0]"

section \<open>Lemmas about the reducers\<close>

lemma find_has_id_None: "find (has_id x) is = None \<longleftrightarrow> x \<notin> set (map line_id is)"
  by (auto simp: find_None_iff has_id_def)

lemma find_has_id_Some: "find (has_id x) is = Some e \<Longrightarrow> e \<in> set is \<and> line_id e = x"
  by (induction "is") (auto simp: has_id_def split: if_splits)

lemma filter_other_ids: "x \<notin> set (map line_id is) \<Longrightarrow> filter (\<lambda>i. line_id i \<noteq> x) is = is"
  by (induction "is") auto

lemma find_append_new: "find P xs = None \<Longrightarrow> find P (xs @ ys) = find P ys"
  by (induction xs) (auto split: if_splits)

text \<open>The reducers, branch by branch.\<close>

lemma addItem_new:
  "find (has_id (item_id item)) (items state) = None \<Longrightarrow>
   addItem state item =
     state\<lparr>totalQuantity := totalQuantity state + 1, changed := True,
       items := items state @
         [\<lparr>line_id = item_id item, price = item_price item, quantity = 1,
           totalPrice = item_price item, name = item_title item\<rparr>]\<rparr>"
  by (simp add: addItem_def Let_def)

lemma addItem_existing:
  "find (has_id (item_id item)) (items state) = Some e \<Longrightarrow>
   addItem state item =
     state\<lparr>totalQuantity := totalQuantity state + 1, changed := True,
       items := update_found (has_id (item_id item))
         (\<lambda>i. i\<lparr>quantity := quantity i + 1, totalPrice := totalPrice i + item_price item\<rparr>)
         (items state)\<rparr>"
  by (simp add: addItem_def Let_def)

lemma removeItem_missing:
  "find (has_id x) (items state) = None \<Longrightarrow> removeItem state x = state"
  by (simp add: removeItem_def)

lemma removeItem_last:
  "find (has_id x) (items state) = Some e \<Longrightarrow> quantity e = 1 \<Longrightarrow>
   removeItem state x =
     state\<lparr>totalQuantity := totalQuantity state - 1, changed := True,
       items := filter (\<lambda>i. line_id i \<noteq> x) (items state)\<rparr>"
  by (simp add: removeItem_def Let_def)

lemma removeItem_decrement:
  "find (has_id x) (items state) = Some e \<Longrightarrow> quantity e \<noteq> 1 \<Longrightarrow>
   removeItem state x =
     state\<lparr>totalQuantity := totalQuantity state - 1, changed := True,
       items := update_found (has_id x)
         (\<lambda>i. i\<lparr>quantity := quantity i - 1, totalPrice := totalPrice i - price i\<rparr>)
         (items state)\<rparr>"
  by (simp add: removeItem_def Let_def)

text \<open>What rewriting the line found does to the list.\<close>

lemma update_found_ids:
  "(\<And>i. line_id (f i) = line_id i) \<Longrightarrow> map line_id (update_found P f is) = map line_id is"
  by (induction "is") auto

lemma update_found_sum:
  "find P is = Some e \<Longrightarrow>
   sum_list (map quantity (update_found P f is)) =
   sum_list (map quantity is) - quantity e + quantity (f e)"
  by (induction "is") (auto split: if_splits)

lemma update_found_all:
  "find P is = Some e \<Longrightarrow> list_all Q is \<Longrightarrow> Q (f e) \<Longrightarrow> list_all Q (update_found P f is)"
  by (induction "is") (auto split: if_splits)

lemma update_found_first:
  "k < length is \<Longrightarrow> P (is ! k) \<Longrightarrow> (\<And>j. j < k \<Longrightarrow> \<not> P (is ! j)) \<Longrightarrow>
   find P is = Some (is ! k) \<and> update_found P f is = is[k := f (is ! k)]"
proof (induction "is" arbitrary: k)
  case Nil
  then show ?case by simp
next
  case (Cons i "is")
  show ?case
  proof (cases k)
    case 0
    with Cons.prems show ?thesis by simp
  next
    case (Suc k')
    with Cons.prems(3)[of 0] have i: "\<not> P i" by simp
    have "find P is = Some (is ! k') \<and> update_found P f is = is[k' := f (is ! k')]"
    proof (rule Cons.IH)
      show "k' < length is" using Cons.prems(1) Suc by simp
      show "P (is ! k')" using Cons.prems(2) Suc by simp
      show "\<not> P (is ! j)" if "j < k'" for j
        using Cons.prems(3)[of "Suc j"] that Suc by simp
    qed
    with i Suc show ?thesis by simp
  qed
qed

lemma filter_found_sum:
  "find (has_id x) is = Some e \<Longrightarrow> distinct (map line_id is) \<Longrightarrow>
   sum_list (map quantity (filter (\<lambda>i. line_id i \<noteq> x) is)) = sum_list (map quantity is) - quantity e"
proof (induction "is")
  case Nil
  then show ?case by simp
next
  case (Cons i "is")
  show ?case
  proof (cases "line_id i = x")
    case True
    with Cons.prems have "x \<notin> set (map line_id is)" and "e = i"
      by (auto simp: has_id_def)
    then show ?thesis using True by (simp add: filter_other_ids)
  next
    case False
    with Cons show ?thesis by (simp add: has_id_def)
  qed
qed

text \<open>Both reducers keep the invariant of the cart.\<close>

lemma addItem_inv: "cart_inv state \<Longrightarrow> cart_inv (addItem state item)"
proof (cases "find (has_id (item_id item)) (items state)")
  case None
  assume "cart_inv state"
  with None show ?thesis
    by (simp add: cart_inv_def addItem_new find_has_id_None)
next
  case (Some e)
  assume inv: "cart_inv state"
  from Some have "e \<in> set (items state)" by (simp add: find_has_id_Some)
  with inv have "1 \<le> quantity e" by (simp add: cart_inv_def list_all_iff)
  with inv Some show ?thesis
    by (simp add: cart_inv_def addItem_existing[OF Some] update_found_ids update_found_sum
        update_found_all)
qed

lemma removeItem_inv: "cart_inv state \<Longrightarrow> cart_inv (removeItem state x)"
proof (cases "find (has_id x) (items state)")
  case None
  assume "cart_inv state"
  with None show ?thesis by (simp add: removeItem_missing)
next
  case (Some e)
  assume inv: "cart_inv state"
  from Some have "e \<in> set (items state)" by (simp add: find_has_id_Some)
  with inv have q: "1 \<le> quantity e" by (simp add: cart_inv_def list_all_iff)
  show ?thesis
  proof (cases "quantity e = 1")
    case True
    with inv Some show ?thesis
      by (simp add: cart_inv_def removeItem_last[OF Some True] filter_found_sum
          distinct_map_filter list_all_iff)
  next
    case False
    with inv Some q show ?thesis
      by (simp add: cart_inv_def removeItem_decrement[OF Some False] update_found_ids
          update_found_sum update_found_all)
  qed
qed

lemma initialState_inv: "cart_inv initialState"
  by (simp add: cart_inv_def initialState_def)

lemma foldl_inv:
  "cart_inv state \<Longrightarrow> list_all add_or_remove acts \<Longrightarrow> cart_inv (foldl cart_reducer state acts)"
proof (induction acts arbitrary: state)
  case Nil
  then show ?case by simp
next
  case (Cons x acts)
  from Cons.prems have "cart_inv (cart_reducer state x)"
    by (cases x) (simp_all add: addItem_inv removeItem_inv)
  with Cons show ?case by simp
qed

lemma inv_nonneg:
  assumes "cart_inv state"
  shows "list_all (\<lambda>i. 0 \<le> quantity i) (items state) \<and> 0 \<le> totalQuantity state"
proof -
  from assms have q: "\<forall>i \<in> set (items state). 1 \<le> quantity i"
    by (simp add: cart_inv_def list_all_iff)
  then have "0 \<le> sum_list (map quantity (items state))"
    by (intro sum_list_nonneg) auto
  with assms q show ?thesis by (auto simp: cart_inv_def list_all_iff)
qed

text \<open>
  The totals of the lines: \<open>removeItem\<close> keeps them right, and \<open>addItem\<close> keeps them
  right when the price it is given is the price of the line it finds.
\<close>

lemma removeItem_line_totals:
  assumes "list_all line_total_ok (items state)"
  shows "list_all line_total_ok (items (removeItem state x))"
proof (cases "find (has_id x) (items state)")
  case None
  with assms show ?thesis by (simp add: removeItem_missing)
next
  case (Some e)
  from Some have "e \<in> set (items state)" by (simp add: find_has_id_Some)
  with assms have e: "line_total_ok e" by (simp add: list_all_iff)
  show ?thesis
  proof (cases "quantity e = 1")
    case True
    with assms show ?thesis by (simp add: removeItem_last[OF Some True] list_all_iff)
  next
    case False
    from e have "line_total_ok (e\<lparr>quantity := quantity e - 1, totalPrice := totalPrice e - price e\<rparr>)"
      by (simp add: line_total_ok_def algebra_simps)
    with assms Some show ?thesis
      by (simp add: removeItem_decrement[OF Some False] update_found_all)
  qed
qed

lemma addItem_line_totals:
  assumes "list_all line_total_ok (items state)"
    and "\<And>e. find (has_id (item_id item)) (items state) = Some e \<Longrightarrow> item_price item = price e"
  shows "list_all line_total_ok (items (addItem state item))"
proof (cases "find (has_id (item_id item)) (items state)")
  case None
  with assms(1) show ?thesis by (simp add: addItem_new line_total_ok_def)
next
  case (Some e)
  from Some have "e \<in> set (items state)" by (simp add: find_has_id_Some)
  with assms(1) have "line_total_ok e" by (simp add: list_all_iff)
  with assms(2)[OF Some]
  have "line_total_ok (e\<lparr>quantity := quantity e + 1, totalPrice := totalPrice e + item_price item\<rparr>)"
    by (simp add: line_total_ok_def algebra_simps)
  with assms(1) Some show ?thesis
    by (simp add: addItem_existing[OF Some] update_found_all)
qed

section \<open>Lemmas about the flag \<open>changed\<close>\<close>

lemma fetchcartData_keeps: "list_all keeps_changed (fetchcartData r)"
  by (cases r) (auto simp: fetchcartData_def split: cart_json.splits option.splits)

lemma sendCartData_keeps: "list_all keeps_changed (sendCartData c r)"
  by (cases r) (auto simp: sendCartData_def)

lemma perform_keeps:
  "keeps_changed e \<Longrightarrow> changed (cart (perform e a)) = changed (cart a) \<and> suspended (perform e a) = suspended a"
  by (cases e rule: keeps_changed.cases) (simp_all add: replaceCart_def Let_def)

lemma start_keeps:
  "list_all keeps_changed es \<Longrightarrow> quiet a \<Longrightarrow>
   changed (cart (start es a)) = changed (cart a) \<and> quiet (start es a)"
proof (induction es a rule: start.induct)
  case (1 a)
  then show ?case by simp
next
  case (2 x es a)
  then show ?case using perform_keeps[of "Dispatch x" a] by (simp add: quiet_def del: perform.simps)
next
  case (3 q es a)
  then show ?case by (simp add: quiet_def)
qed

lemma finish_keeps:
  "list_all keeps_changed es \<Longrightarrow>
   changed (cart (finish es a)) = changed (cart a) \<and> suspended (finish es a) = suspended a"
proof (induction es arbitrary: a)
  case Nil
  then show ?case by simp
next
  case (Cons e es)
  then show ?case using perform_keeps[of e a] by (simp del: perform.simps)
qed

lemma resume_keeps:
  assumes "quiet a"
  shows "changed (cart (resume k a)) = changed (cart a) \<and> quiet (resume k a)"
proof (cases "k < length (suspended a)")
  case True
  with assms have k: "list_all keeps_changed (suspended a ! k)"
    by (simp add: quiet_def list_all_length)
  from assms have "list_all (list_all keeps_changed) (take k (suspended a) @ drop (Suc k) (suspended a))"
    by (auto simp: quiet_def list_all_iff dest: in_set_takeD in_set_dropD)
  with True finish_keeps[OF k] show ?thesis
    by (simp add: resume_def quiet_def)
next
  case False
  with assms show ?thesis by (simp add: resume_def)
qed

lemma user_changed:
  "changed (cart (perform (Dispatch x) a)) = (changed (cart a) \<or> mutates (cart a) (User x)) \<and>
   suspended (perform (Dispatch x) a) = suspended a"
  by (cases x) (auto simp: replaceCart_def addItem_def removeItem_def Let_def split: option.splits)

lemma step_changed:
  assumes "quiet a"
  shows "changed (cart (step a e)) = (changed (cart a) \<or> mutates (cart a) e) \<and> quiet (step a e)"
proof (cases e)
  case (User x)
  with assms user_changed[of x a] show ?thesis by (simp add: quiet_def del: perform.simps)
next
  case (LoadEffect r)
  with start_keeps[OF fetchcartData_keeps assms, of r] show ?thesis by simp
next
  case (SyncEffect r)
  have "quiet (a\<lparr>isInitial := False\<rparr>)" using assms by (simp add: quiet_def)
  with SyncEffect assms start_keeps[OF sendCartData_keeps assms, of "cart a" r] show ?thesis by simp
next
  case (Resume k)
  with assms resume_keeps show ?thesis by simp
qed

lemma run_append: "run a (es @ fs) = run (run a es) fs"
  by (induction es arbitrary: a) auto

lemma run_changed:
  "quiet a \<Longrightarrow>
   changed (cart (run a es)) =
     (changed (cart a) \<or> (\<exists>before e after. es = before @ e # after \<and> mutates (cart (run a before)) e)) \<and>
   quiet (run a es)"
proof (induction es rule: rev_induct)
  case Nil
  then show ?case by simp
next
  case (snoc e es)
  let ?M = "\<lambda>es. \<exists>before e after. es = before @ e # after \<and> mutates (cart (run a before)) e"
  from snoc have ih: "changed (cart (run a es)) = (changed (cart a) \<or> ?M es)" and q: "quiet (run a es)"
    by simp_all
  have "?M (es @ [e]) \<longleftrightarrow> ?M es \<or> mutates (cart (run a es)) e"
  proof
    assume "?M (es @ [e])"
    then obtain before e' after where d: "es @ [e] = before @ e' # after" and m: "mutates (cart (run a before)) e'"
      by blast
    show "?M es \<or> mutates (cart (run a es)) e"
    proof (cases after rule: rev_cases)
      case Nil
      with d m show ?thesis by simp
    next
      case (snoc after' l)
      with d have "es = before @ e' # after'" by simp
      with m show ?thesis by blast
    qed
  next
    assume "?M es \<or> mutates (cart (run a es)) e"
    then show "?M (es @ [e])"
    proof
      assume "?M es"
      then obtain before e' after where "es = before @ e' # after" and m: "mutates (cart (run a before)) e'"
        by blast
      then have "es @ [e] = before @ e' # (after @ [e])" by simp
      with m show ?thesis by blast
    next
      assume "mutates (cart (run a es)) e"
      then show ?thesis by blast
    qed
  qed
  with ih step_changed[OF q, of e] show ?case by (simp add: run_append)
qed

section \<open>Properties of the reducers\<close>

text \<open>
  C1. After every sequence of \<open>addItem\<close> and \<open>removeItem\<close> actions applied to the
  initial cart state, \<open>totalQuantity\<close> is the sum of the quantities of the lines, no
  line has a negative quantity, and \<open>totalQuantity\<close> is not negative.
\<close>

theorem totalQuantity_is_sum:
  assumes "list_all add_or_remove acts"
  shows "totalQuantity (foldl cart_reducer initialState acts) =
           sum_list (map quantity (items (foldl cart_reducer initialState acts))) \<and>
         list_all (\<lambda>i. 0 \<le> quantity i) (items (foldl cart_reducer initialState acts)) \<and>
         0 \<le> totalQuantity (foldl cart_reducer initialState acts)"
proof -
  have inv: "cart_inv (foldl cart_reducer initialState acts)"
    using initialState_inv assms by (rule foldl_inv)
  then have "totalQuantity (foldl cart_reducer initialState acts) =
      sum_list (map quantity (items (foldl cart_reducer initialState acts)))"
    by (simp add: cart_inv_def)
  with inv_nonneg[OF inv] show ?thesis by simp
qed

theorem totalQuantity_is_sum_witness:
  "list_all add_or_remove
     [AddItem product1, AddItem product2, AddItem product1, RemoveItem ''p2'', RemoveItem ''p9''] \<and>
   totalQuantity (foldl cart_reducer initialState
     [AddItem product1, AddItem product2, AddItem product1, RemoveItem ''p2'', RemoveItem ''p9'']) =
   sum_list (map quantity (items (foldl cart_reducer initialState
     [AddItem product1, AddItem product2, AddItem product1, RemoveItem ''p2'', RemoveItem ''p9'']))) \<and>
   list_all (\<lambda>i. 0 \<le> quantity i) (items (foldl cart_reducer initialState
     [AddItem product1, AddItem product2, AddItem product1, RemoveItem ''p2'', RemoveItem ''p9''])) \<and>
   0 \<le> totalQuantity (foldl cart_reducer initialState
     [AddItem product1, AddItem product2, AddItem product1, RemoveItem ''p2'', RemoveItem ''p9''])"
proof -
  have h: "list_all add_or_remove
     [AddItem product1, AddItem product2, AddItem product1, RemoveItem ''p2'', RemoveItem ''p9'']"
    by simp
  from totalQuantity_is_sum[OF h] h show ?thesis by blast
qed

text \<open>
  C2. The claim is that an \<open>addItem\<close> whose id matches a line keeps that line's
  \<open>totalPrice\<close> equal to \<open>price * quantity\<close> whatever price the payload carries. The
  reducer adds the payload's price to the total, where \<open>removeItem\<close> subtracts the price
  stored in the line: with a line of price 6 and quantity 1 and a payload of price 10, the
  line ends with price 6, quantity 2 and a total of 16, not 12.
\<close>

theorem addItem_adds_payload_price:
  "items (addItem
     \<lparr>items = [\<lparr>line_id = ''p1'', price = 6, quantity = 1, totalPrice = 6, name = ''Product 1''\<rparr>],
      totalQuantity = 1, changed = False\<rparr>
     \<lparr>item_id = ''p1'', item_price = 10, item_title = ''Product 1'', item_quantity = None\<rparr>) =
   [\<lparr>line_id = ''p1'', price = 6, quantity = 2, totalPrice = 16, name = ''Product 1''\<rparr>] \<and>
   \<not> line_total_ok \<lparr>line_id = ''p1'', price = 6, quantity = 2, totalPrice = 16, name = ''Product 1''\<rparr>"
  by (simp add: addItem_def has_id_def line_total_ok_def)

text \<open>
  C4. \<open>addItem\<close> sets \<open>changed\<close> and adds one to \<open>totalQuantity\<close> (a safe integer,
  so that the addition of the source is exact). When no line has the payload's id, it
  appends the line \<open>{id, price, quantity: 1, totalPrice: price, name: title}\<close>; when
  the first line with that id stands at index \<open>k\<close>, that line gets one more in
  \<open>quantity\<close> (and the payload's price more in \<open>totalPrice\<close>, these numbers and the
  new total being safe integers) and every other line stays. From the empty cart, adding
  product 1 gives exactly the cart of the scenario.
\<close>

theorem addItem_effect:
  "(safe_integer (totalQuantity state) \<longrightarrow>
      totalQuantity (addItem state item) = totalQuantity state + 1) \<and>
   changed (addItem state item) \<and>
   (item_id item \<notin> set (map line_id (items state)) \<longrightarrow>
      items (addItem state item) =
        items state @
          [\<lparr>line_id = item_id item, price = item_price item, quantity = 1,
            totalPrice = item_price item, name = item_title item\<rparr>]) \<and>
   (\<forall>k. k < length (items state) \<and> line_id (items state ! k) = item_id item \<and>
        (\<forall>j. j < k \<longrightarrow> line_id (items state ! j) \<noteq> item_id item) \<and>
        safe_integer (quantity (items state ! k)) \<and>
        safe_integer (totalPrice (items state ! k)) \<and>
        safe_integer (item_price item) \<and>
        safe_integer (totalPrice (items state ! k) + item_price item) \<longrightarrow>
      items (addItem state item) =
        (items state)[k := (items state ! k)
          \<lparr>quantity := quantity (items state ! k) + 1,
           totalPrice := totalPrice (items state ! k) + item_price item\<rparr>]) \<and>
   addItem initialState
     \<lparr>item_id = ''p1'', item_price = 6, item_title = ''Product 1'', item_quantity = None\<rparr> =
     \<lparr>items = [\<lparr>line_id = ''p1'', price = 6, quantity = 1, totalPrice = 6, name = ''Product 1''\<rparr>],
      totalQuantity = 1, changed = True\<rparr>"
proof -
  have total: "totalQuantity (addItem state item) = totalQuantity state + 1"
    by (simp add: addItem_def Let_def split: option.splits)
  have flag: "changed (addItem state item)"
    by (simp add: addItem_def Let_def split: option.splits)
  have new: "items (addItem state item) =
        items state @
          [\<lparr>line_id = item_id item, price = item_price item, quantity = 1,
            totalPrice = item_price item, name = item_title item\<rparr>]"
    if "item_id item \<notin> set (map line_id (items state))"
  proof -
    from that have "find (has_id (item_id item)) (items state) = None"
      by (simp add: find_has_id_None)
    then show ?thesis by (simp add: addItem_new)
  qed
  have existing: "items (addItem state item) =
        (items state)[k := (items state ! k)
          \<lparr>quantity := quantity (items state ! k) + 1,
           totalPrice := totalPrice (items state ! k) + item_price item\<rparr>]"
    if k: "k < length (items state)" and here: "line_id (items state ! k) = item_id item"
      and first: "\<forall>j. j < k \<longrightarrow> line_id (items state ! j) \<noteq> item_id item" for k
  proof -
    have "find (has_id (item_id item)) (items state) = Some (items state ! k) \<and>
        update_found (has_id (item_id item))
          (\<lambda>i. i\<lparr>quantity := quantity i + 1, totalPrice := totalPrice i + item_price item\<rparr>)
          (items state) =
        (items state)[k := (items state ! k)
          \<lparr>quantity := quantity (items state ! k) + 1,
           totalPrice := totalPrice (items state ! k) + item_price item\<rparr>]"
      using k here first by (intro update_found_first) (simp_all add: has_id_def)
    then show ?thesis by (simp add: addItem_existing)
  qed
  have scenario: "addItem initialState
     \<lparr>item_id = ''p1'', item_price = 6, item_title = ''Product 1'', item_quantity = None\<rparr> =
     \<lparr>items = [\<lparr>line_id = ''p1'', price = 6, quantity = 1, totalPrice = 6, name = ''Product 1''\<rparr>],
      totalQuantity = 1, changed = True\<rparr>"
    by (simp add: addItem_def initialState_def)
  from total flag new existing scenario show ?thesis by blast
qed

theorem addItem_effect_witness:
  "safe_integer (totalQuantity (addItem (addItem initialState product2) product1)) \<and>
   totalQuantity (addItem (addItem (addItem initialState product2) product1) product1) = 3 \<and>
   ''p1'' \<notin> set (map line_id (items initialState)) \<and>
   items (addItem initialState product1) =
     [\<lparr>line_id = ''p1'', price = 6, quantity = 1, totalPrice = 6, name = ''Product 1''\<rparr>] \<and>
   (1::nat) < length (items (addItem (addItem initialState product2) product1)) \<and>
   line_id (items (addItem (addItem initialState product2) product1) ! 1) = ''p1'' \<and>
   line_id (items (addItem (addItem initialState product2) product1) ! 0) \<noteq> ''p1'' \<and>
   safe_integer (quantity (items (addItem (addItem initialState product2) product1) ! 1)) \<and>
   safe_integer (totalPrice (items (addItem (addItem initialState product2) product1) ! 1)) \<and>
   safe_integer (item_price product1) \<and>
   safe_integer (totalPrice (items (addItem (addItem initialState product2) product1) ! 1) +
     item_price product1) \<and>
   items (addItem (addItem (addItem initialState product2) product1) product1) =
     [\<lparr>line_id = ''p2'', price = 10, quantity = 1, totalPrice = 10, name = ''Product 2''\<rparr>,
      \<lparr>line_id = ''p1'', price = 6, quantity = 2, totalPrice = 12, name = ''Product 1''\<rparr>]"
proof -
  have s: "addItem (addItem initialState product2) product1 =
      \<lparr>items = [\<lparr>line_id = ''p2'', price = 10, quantity = 1, totalPrice = 10, name = ''Product 2''\<rparr>,
                \<lparr>line_id = ''p1'', price = 6, quantity = 1, totalPrice = 6, name = ''Product 1''\<rparr>],
       totalQuantity = 2, changed = True\<rparr>"
    by (simp add: addItem_def initialState_def product1_def product2_def has_id_def)
  have new: "''p1'' \<notin> set (map line_id (items initialState))"
    by (simp add: initialState_def)
  have safe: "safe_integer (totalQuantity (addItem (addItem initialState product2) product1))"
    unfolding s by (simp add: safe_integer_def)
  have t: "totalQuantity (addItem (addItem (addItem initialState product2) product1) product1) =
      totalQuantity (addItem (addItem initialState product2) product1) + 1"
    by (rule addItem_effect[of "addItem (addItem initialState product2) product1" product1,
          THEN conjunct1, THEN mp])
      (rule safe)
  have a: "items (addItem initialState product1) =
      items initialState @
        [\<lparr>line_id = item_id product1, price = item_price product1, quantity = 1,
          totalPrice = item_price product1, name = item_title product1\<rparr>]"
    by (rule addItem_effect[of initialState product1,
          THEN conjunct2, THEN conjunct2, THEN conjunct1, THEN mp])
      (simp add: initialState_def)
  have b: "items (addItem (addItem (addItem initialState product2) product1) product1) =
     (items (addItem (addItem initialState product2) product1))[1 :=
        (items (addItem (addItem initialState product2) product1) ! 1)
          \<lparr>quantity := quantity (items (addItem (addItem initialState product2) product1) ! 1) + 1,
           totalPrice := totalPrice (items (addItem (addItem initialState product2) product1) ! 1) +
             item_price product1\<rparr>]"
    by (rule addItem_effect[of "addItem (addItem initialState product2) product1" product1,
          THEN conjunct2, THEN conjunct2, THEN conjunct2, THEN conjunct1, THEN spec, of 1, THEN mp],
        unfold s)
      (simp add: product1_def safe_integer_def)
  from new a b t show ?thesis unfolding s
    by (simp add: product1_def initialState_def safe_integer_def)
qed

text \<open>
  C5. \<open>removeItem\<close> with an id that no line of the cart has returns the state it was
  given: the same items, the same \<open>totalQuantity\<close>, the same \<open>changed\<close>.
\<close>

theorem removeItem_unknown_id:
  "x \<notin> set (map line_id (items state)) \<Longrightarrow> removeItem state x = state"
proof -
  assume "x \<notin> set (map line_id (items state))"
  then have "find (has_id x) (items state) = None"
    by (simp add: find_has_id_None)
  then show ?thesis by (rule removeItem_missing)
qed

theorem removeItem_unknown_id_witness:
  "''p2'' \<notin> set (map line_id (items (addItem initialState product1))) \<and>
   removeItem (addItem initialState product1) ''p2'' = addItem initialState product1"
proof -
  have h: "''p2'' \<notin> set (map line_id (items (addItem initialState product1)))"
    by (simp add: addItem_def initialState_def product1_def)
  from removeItem_unknown_id[OF h] h show ?thesis by blast
qed

text \<open>
  C6. \<open>replaceCart\<close> sets \<open>items\<close> and \<open>totalQuantity\<close> to exactly the payload's
  values, whatever the prior state was, and leaves \<open>changed\<close> as it was.
\<close>

theorem replaceCart_overwrites:
  "items (replaceCart state payload) = payload_items payload \<and>
   totalQuantity (replaceCart state payload) = payload_totalQuantity payload \<and>
   changed (replaceCart state payload) = changed state"
  by (simp add: replaceCart_def Let_def)

text \<open>
  C7. In a state with no line of id \<open>x\<close>, \<open>addItem\<close> with id \<open>x\<close> followed at once by
  \<open>removeItem x\<close> gives back the items from before the \<open>addItem\<close>, and the
  \<open>totalQuantity\<close> from before it when that is a safe integer (so that adding one and
  taking one away are both exact in the source).
\<close>

theorem addItem_removeItem_inverse:
  assumes "item_id item \<notin> set (map line_id (items state))"
  shows "items (removeItem (addItem state item) (item_id item)) = items state \<and>
         (safe_integer (totalQuantity state) \<longrightarrow>
            totalQuantity (removeItem (addItem state item) (item_id item)) = totalQuantity state)"
proof -
  from assms have "find (has_id (item_id item)) (items state) = None"
    by (simp add: find_has_id_None)
  then show ?thesis using assms
    by (simp add: addItem_new removeItem_def Let_def find_append_new has_id_def filter_other_ids)
qed

theorem addItem_removeItem_inverse_witness:
  "item_id product2 \<notin> set (map line_id (items (addItem initialState product1))) \<and>
   safe_integer (totalQuantity (addItem initialState product1)) \<and>
   items (removeItem (addItem (addItem initialState product1) product2) (item_id product2)) =
     items (addItem initialState product1) \<and>
   totalQuantity (removeItem (addItem (addItem initialState product1) product2) (item_id product2)) =
     totalQuantity (addItem initialState product1)"
proof -
  have h: "item_id product2 \<notin> set (map line_id (items (addItem initialState product1)))"
    by (simp add: addItem_def initialState_def product1_def product2_def)
  have safe: "safe_integer (totalQuantity (addItem initialState product1))"
    by (simp add: addItem_def initialState_def safe_integer_def)
  from addItem_removeItem_inverse[OF h] h safe show ?thesis by blast
qed

text \<open>
  C10. The result of \<open>addItem\<close> does not depend on the payload's \<open>quantity\<close> field:
  two payloads with the same id, price and title, whatever their quantities (present or
  absent), give the same state. And whatever quantity the payload carries, the reducer
  adds exactly one: to \<open>totalQuantity\<close>, and to the quantities of the lines taken
  together (the new line has quantity 1, the line found gets one more), these numbers
  being safe integers.
\<close>

theorem addItem_ignores_quantity:
  assumes "item_id p = item_id q" and "item_price p = item_price q"
    and "item_title p = item_title q"
  shows "addItem state p = addItem state q \<and>
         (safe_integer (totalQuantity state) \<longrightarrow>
            totalQuantity (addItem state p) = totalQuantity state + 1) \<and>
         (list_all (\<lambda>i. safe_integer (quantity i)) (items state) \<longrightarrow>
            sum_list (map quantity (items (addItem state p))) =
              sum_list (map quantity (items state)) + 1)"
proof -
  have same: "addItem state p = addItem state q"
    using assms by (simp add: addItem_def Let_def split: option.splits)
  have total: "totalQuantity (addItem state p) = totalQuantity state + 1"
    by (simp add: addItem_def Let_def split: option.splits)
  have lines: "sum_list (map quantity (items (addItem state p))) =
      sum_list (map quantity (items state)) + 1"
  proof (cases "find (has_id (item_id p)) (items state)")
    case None
    then show ?thesis by (simp add: addItem_new)
  next
    case (Some e)
    then show ?thesis by (simp add: addItem_existing[OF Some] update_found_sum)
  qed
  from same total lines show ?thesis by blast
qed

theorem addItem_ignores_quantity_witness:
  "item_id (product1\<lparr>item_quantity := Some 5\<rparr>) = item_id product1 \<and>
   item_price (product1\<lparr>item_quantity := Some 5\<rparr>) = item_price product1 \<and>
   item_title (product1\<lparr>item_quantity := Some 5\<rparr>) = item_title product1 \<and>
   item_quantity (product1\<lparr>item_quantity := Some 5\<rparr>) \<noteq> item_quantity product1 \<and>
   safe_integer (totalQuantity (addItem initialState product1)) \<and>
   list_all (\<lambda>i. safe_integer (quantity i)) (items (addItem initialState product1)) \<and>
   addItem (addItem initialState product1) (product1\<lparr>item_quantity := Some 5\<rparr>) =
     addItem (addItem initialState product1) product1 \<and>
   totalQuantity (addItem (addItem initialState product1) (product1\<lparr>item_quantity := Some 5\<rparr>)) =
     2 \<and>
   items (addItem (addItem initialState product1) (product1\<lparr>item_quantity := Some 5\<rparr>)) =
     [\<lparr>line_id = ''p1'', price = 6, quantity = 2, totalPrice = 12, name = ''Product 1''\<rparr>] \<and>
   sum_list (map quantity
     (items (addItem (addItem initialState product1) (product1\<lparr>item_quantity := Some 5\<rparr>)))) =
     sum_list (map quantity (items (addItem initialState product1))) + 1"
proof -
  have s: "addItem initialState product1 =
      \<lparr>items = [\<lparr>line_id = ''p1'', price = 6, quantity = 1, totalPrice = 6, name = ''Product 1''\<rparr>],
       totalQuantity = 1, changed = True\<rparr>"
    by (simp add: addItem_def initialState_def product1_def)
  have safe: "safe_integer (totalQuantity (addItem initialState product1))"
    unfolding s by (simp add: safe_integer_def)
  have safes: "list_all (\<lambda>i. safe_integer (quantity i)) (items (addItem initialState product1))"
    unfolding s by (simp add: safe_integer_def)
  have five: "items (addItem (addItem initialState product1) (product1\<lparr>item_quantity := Some 5\<rparr>)) =
     [\<lparr>line_id = ''p1'', price = 6, quantity = 2, totalPrice = 12, name = ''Product 1''\<rparr>]"
    unfolding s by (simp add: addItem_def product1_def has_id_def)
  have agree: "item_id (product1\<lparr>item_quantity := Some 5\<rparr>) = item_id product1"
    "item_price (product1\<lparr>item_quantity := Some 5\<rparr>) = item_price product1"
    "item_title (product1\<lparr>item_quantity := Some 5\<rparr>) = item_title product1"
    "item_quantity (product1\<lparr>item_quantity := Some 5\<rparr>) \<noteq> item_quantity product1"
    by (simp_all add: product1_def)
  have one: "totalQuantity (addItem initialState product1) = 1"
    unfolding s by simp
  from addItem_ignores_quantity[OF agree(1-3), of "addItem initialState product1"] safe safes
  have same: "addItem (addItem initialState product1) (product1\<lparr>item_quantity := Some 5\<rparr>) =
      addItem (addItem initialState product1) product1"
    and total: "totalQuantity
        (addItem (addItem initialState product1) (product1\<lparr>item_quantity := Some 5\<rparr>)) =
      totalQuantity (addItem initialState product1) + 1"
    and lines: "sum_list (map quantity
      (items (addItem (addItem initialState product1) (product1\<lparr>item_quantity := Some 5\<rparr>)))) =
      sum_list (map quantity (items (addItem initialState product1))) + 1"
    by blast+
  from total one
  have two: "totalQuantity
      (addItem (addItem initialState product1) (product1\<lparr>item_quantity := Some 5\<rparr>)) = 2"
    by linarith
  from agree safe safes same two five lines show ?thesis by blast
qed

section \<open>Properties of the thunks and of the flag \<open>changed\<close>\<close>

text \<open>
  C3. The claim is that \<open>changed\<close> is true iff the cart has been mutated since the
  last successful remote replace or sync, so that it is false again after a successful
  \<open>sendCartData\<close>. No reducer and no thunk ever sets \<open>changed\<close> back to false: in the
  run \<open>add_then_sync\<close> the write of the current cart succeeds and is the last thing
  that happens, and \<open>changed\<close> is still true.
\<close>

theorem changed_after_successful_sync:
  "changed (cart (run initial_app add_then_sync)) \<and>
   \<not> spec_changed initialState False (trace (run initial_app add_then_sync)) \<and>
   trace (run initial_app add_then_sync) =
     [Request (GET cart_url),
      Dispatch (ReplaceCart \<lparr>payload_items = [], payload_totalQuantity = 0\<rparr>),
      Dispatch (AddItem product1),
      Dispatch (ShowNotification sending_notification),
      Request (PUT cart_url
        \<lparr>payload_items = items (cart (run initial_app add_then_sync)),
         payload_totalQuantity = totalQuantity (cart (run initial_app add_then_sync))\<rparr>),
      Dispatch (ShowNotification sent_notification)]"
  by (simp add: add_then_sync_def initial_app_def initialState_def resume_def
      fetchcartData_def sendCartData_def replaceCart_def addItem_def product1_def
      sent_notification_def sending_notification_def)

text \<open>
  C3, as the code has it. In every run of the application from its start, \<open>changed\<close>
  is true iff some event of the run mutated the cart: an \<open>addItem\<close>, or a \<open>removeItem\<close>
  of the id of a line. Nothing clears the flag, neither a remote replace nor a
  successful write.
\<close>

theorem changed_iff_mutated:
  "changed (cart (run initial_app es)) \<longleftrightarrow>
   (\<exists>before e after. es = before @ e # after \<and> mutates (cart (run initial_app before)) e)"
proof -
  have "quiet initial_app"
    by (simp add: quiet_def initial_app_def)
  from run_changed[OF this, of es] show ?thesis
    by (simp add: initial_app_def initialState_def)
qed

text \<open>
  C8. When the load fails, by a network error or by a response that is not ok,
  \<open>fetchcartData\<close> dispatches one action only, the notification with status
  \<open>error\<close>: no \<open>pending\<close> notification before it and no cart action. So the cart is
  what it was, and at the start of the application it stays the initial empty cart.
\<close>

theorem fetchcartData_failure:
  assumes "\<not> succeeded r"
  shows "dispatched (fetchcartData r) = [ShowNotification fetch_failed_notification] \<and>
         status fetch_failed_notification = ''error'' \<and>
         foldl cart_reducer state (dispatched (fetchcartData r)) = state \<and>
         cart (run initial_app [LoadEffect r, SyncEffect w, Resume 0]) = initialState \<and>
         trace (run initial_app [LoadEffect r, SyncEffect w, Resume 0]) =
           [Request (GET cart_url), Dispatch (ShowNotification fetch_failed_notification)]"
proof -
  from assms have f: "fetchcartData r =
      [Request (GET cart_url), Dispatch (ShowNotification fetch_failed_notification)]"
    by (cases r) (simp_all add: fetchcartData_def)
  show ?thesis
    by (simp add: f fetch_failed_notification_def initial_app_def resume_def)
qed

theorem fetchcartData_failure_witness:
  "\<not> succeeded (Rejected :: cart_json response) \<and>
   \<not> succeeded (Response False JsonNull) \<and>
   dispatched (fetchcartData Rejected) = [ShowNotification fetch_failed_notification] \<and>
   dispatched (fetchcartData (Response False JsonNull)) =
     [ShowNotification fetch_failed_notification] \<and>
   cart (run initial_app [LoadEffect (Response False JsonNull), SyncEffect Rejected, Resume 0]) =
     initialState"
proof -
  have h1: "\<not> succeeded (Rejected :: cart_json response)" by simp
  have h2: "\<not> succeeded (Response False JsonNull)" by simp
  from fetchcartData_failure[OF h1, of initialState Rejected]
    fetchcartData_failure[OF h2, of initialState Rejected] h1 h2
  show ?thesis by blast
qed

text \<open>
  C9. Whatever the cart and whatever the outcome of the write, \<open>sendCartData\<close> first
  dispatches the \<open>pending\<close> notification, then sends one write with the cart's
  \<open>{items, totalQuantity}\<close>, then dispatches one more notification, which is \<open>success\<close>
  when the write succeeded and \<open>error\<close> when it failed; there is no second request.
\<close>

theorem sendCartData_protocol:
  "sendCartData state r =
     [Dispatch (ShowNotification sending_notification),
      Request (PUT cart_url
        \<lparr>payload_items = items state, payload_totalQuantity = totalQuantity state\<rparr>),
      Dispatch (ShowNotification
        (if succeeded r then sent_notification else send_failed_notification))] \<and>
   requested (sendCartData state r) =
     [PUT cart_url \<lparr>payload_items = items state, payload_totalQuantity = totalQuantity state\<rparr>] \<and>
   status sending_notification = ''pending'' \<and>
   status sent_notification = ''success'' \<and>
   status send_failed_notification = ''error''"
  by (cases r)
    (simp_all add: sendCartData_def sending_notification_def sent_notification_def
      send_failed_notification_def)

end
